theory Spec2Isabelle
  imports Main
begin

section \<open>Shared values: JSON, exceptions, results\<close>

text \<open>
  JSON values as \<^verbatim>\<open>JSON.parse\<close> produces them and \<^verbatim>\<open>JSON.stringify\<close> consumes them.
  An object is its property list in enumeration order. Numbers are the integers the
  code computes with (counts, millisecond timestamps); a property whose value is
  \<^verbatim>\<open>undefined\<close> is a property that is absent, which is how \<^verbatim>\<open>JSON.stringify\<close>
  renders it.
\<close>

datatype json =
    JNull
  | JBool bool
  | JNum int
  | JStr string
  | JArr "json list"
  | JObj "(string \<times> json) list"

text \<open>What a JavaScript statement can throw in the code under study.\<close>

datatype exn = SyntaxError | TypeError | SendError | StoreError | TtlError

text \<open>The completion of a call: it returns a value or throws.\<close>

datatype 'a result = Returned 'a | Threw exn

text \<open>
  Property assignment in an object literal or a spread: an existing key keeps its
  position and takes the new value, a new key is appended.
\<close>

fun obj_set :: "(string \<times> json) list \<Rightarrow> string \<Rightarrow> json \<Rightarrow> (string \<times> json) list" where
  "obj_set [] k v = [(k, v)]"
| "obj_set ((k', v') # kvs) k v =
     (if k' = k then (k, v) # kvs else (k', v') # obj_set kvs k v)"

text \<open>
  Property read \<^verbatim>\<open>data.name\<close> on a parsed value: reading a property of \<^verbatim>\<open>null\<close>
  throws a TypeError, an object yields the property or \<^verbatim>\<open>undefined\<close> (\<open>None\<close>), and
  no other parsed value has a property of the names the code reads
  (\<^verbatim>\<open>type\<close>, \<^verbatim>\<open>payload\<close>).
\<close>

fun get_prop :: "json \<Rightarrow> string \<Rightarrow> json option result" where
  "get_prop JNull k = Threw TypeError"
| "get_prop (JObj kvs) k = Returned (map_of kvs k)"
| "get_prop _ k = Returned None"

text \<open>
  The own enumerable properties that \<^verbatim>\<open>{...message}\<close> copies. The hub spreads only
  objects: the inbound handler a parsed value whose \<^verbatim>\<open>type\<close> is \<^verbatim>\<open>'broadcast'\<close>,
  \<^verbatim>\<open>notifyClients\<close> a \<^verbatim>\<open>RealtimeMessage\<close>.
\<close>

fun spread :: "json \<Rightarrow> (string \<times> json) list" where
  "spread (JObj kvs) = kvs"
| "spread _ = []"

text \<open>An object literal in which a property with an \<^verbatim>\<open>undefined\<close> value is left out.\<close>

fun opt_prop :: "string \<Rightarrow> json option \<Rightarrow> (string \<times> json) list" where
  "opt_prop k None = []"
| "opt_prop k (Some v) = [(k, v)]"


section \<open>The real-time hub (durable-objects/realtime.ts)\<close>

text \<open>
  A \<^verbatim>\<open>WebSocket\<close> is an opaque handle. The hub's only field is
  \<^verbatim>\<open>sessions : Map<WebSocket, {agentId, workspaceId}>\<close>; a JavaScript \<^verbatim>\<open>Map\<close> keeps
  its entries in insertion order with one entry per key, so it is an association list
  here, with \<^verbatim>\<open>get\<close>, \<^verbatim>\<open>set\<close> and \<^verbatim>\<open>delete\<close> written out.

  The effect of the hub on the outside is the sequence of \<^verbatim>\<open>ws.send\<close> calls it
  makes; \<open>sends\<close> records every call (socket and the object handed to
  \<^verbatim>\<open>JSON.stringify\<close>) in order. The code calls no other method of a socket: it never
  closes one.
\<close>

type_synonym socket = nat

record session =
  agentId :: string
  workspaceId :: string

record hub =
  sessions :: "(socket \<times> session) list"
  sends :: "(socket \<times> json) list"

definition sessions_get :: "(socket \<times> session) list \<Rightarrow> socket \<Rightarrow> session option" where
  "sessions_get m ws = map_of m ws"

fun sessions_set :: "(socket \<times> session) list \<Rightarrow> socket \<Rightarrow> session \<Rightarrow> (socket \<times> session) list" where
  "sessions_set [] ws s = [(ws, s)]"
| "sessions_set ((w, s') # m) ws s =
     (if w = ws then (ws, s) # m else (w, s') # sessions_set m ws s)"

definition sessions_delete :: "(socket \<times> session) list \<Rightarrow> socket \<Rightarrow> (socket \<times> session) list" where
  "sessions_delete m ws = filter (\<lambda>e. fst e \<noteq> ws) m"

text \<open>The one-entry-per-key property of a \<^verbatim>\<open>Map\<close>.\<close>

definition map_ok :: "(socket \<times> session) list \<Rightarrow> bool" where
  "map_ok m = distinct (map fst m)"

text \<open>
  \<^verbatim>\<open>ws.send(JSON.stringify(v))\<close>. Whether a send throws is the platform's matter
  (a socket that is closed or broken); \<open>fails\<close> says for which sockets it does. The
  call is recorded in either case, and a throwing call delivers nothing.
\<close>

definition ws_send :: "(socket \<Rightarrow> bool) \<Rightarrow> socket \<Rightarrow> json \<Rightarrow> hub \<Rightarrow> unit result \<times> hub" where
  "ws_send fails ws v h =
     (if fails ws then Threw SendError else Returned (),
      h\<lparr>sends := sends h @ [(ws, v)]\<rparr>)"

text \<open>The frames that reached their socket: the calls that did not throw.\<close>

definition delivered :: "(socket \<Rightarrow> bool) \<Rightarrow> (socket \<times> json) list \<Rightarrow> (socket \<times> json) list" where
  "delivered fails xs = filter (\<lambda>e. \<not> fails (fst e)) xs"

text \<open>
  The loop of \<^verbatim>\<open>broadcast\<close> over \<^verbatim>\<open>this.sessions.entries()\<close>:
  \<^verbatim>\<open>
    for (const [ws, session] of this.sessions.entries()) {
      if (session.workspaceId === workspaceId) {
        try { ws.send(messageStr); }
        catch (error) { console.error(...); this.sessions.delete(ws); }
      }
    }
  \<close>
  The body deletes no entry but the one being visited, and a \<^verbatim>\<open>Map\<close> iterator
  carries on with the following entries after such a deletion, so the loop visits the
  entries the map had when it started.
\<close>

fun broadcast_loop ::
  "(socket \<Rightarrow> bool) \<Rightarrow> json \<Rightarrow> string \<Rightarrow> (socket \<times> session) list \<Rightarrow> hub \<Rightarrow> unit result \<times> hub" where
  "broadcast_loop fails messageStr wid [] h = (Returned (), h)"
| "broadcast_loop fails messageStr wid ((ws, s) # rest) h =
     (if workspaceId s = wid then
        (case ws_send fails ws messageStr h of
           (Returned u, h1) \<Rightarrow> broadcast_loop fails messageStr wid rest h1
         | (Threw e, h1) \<Rightarrow>
             broadcast_loop fails messageStr wid rest
               (h1\<lparr>sessions := sessions_delete (sessions h1) ws\<rparr>))
      else broadcast_loop fails messageStr wid rest h)"

text \<open>
  \<^verbatim>\<open>broadcast(message, workspaceId)\<close>: the frame is \<^verbatim>\<open>{...message, timestamp: Date.now()}\<close>,
  the same for every recipient.
\<close>

definition broadcast_frame :: "int \<Rightarrow> json \<Rightarrow> json" where
  "broadcast_frame now message = JObj (obj_set (spread message) ''timestamp'' (JNum now))"

definition broadcast :: "(socket \<Rightarrow> bool) \<Rightarrow> int \<Rightarrow> json \<Rightarrow> string \<Rightarrow> hub \<Rightarrow> unit result \<times> hub" where
  "broadcast fails now message wid h =
     broadcast_loop fails (broadcast_frame now message) wid (sessions h) h"

definition notifyClients :: "(socket \<Rightarrow> bool) \<Rightarrow> int \<Rightarrow> string \<Rightarrow> json \<Rightarrow> hub \<Rightarrow> unit result \<times> hub" where
  "notifyClients fails now wid message h = broadcast fails now message wid h"

text \<open>An inbound frame is a string or an \<^verbatim>\<open>ArrayBuffer\<close>.\<close>

datatype ws_message = Text string | Binary "nat list"

definition pong_frame :: "int \<Rightarrow> json" where
  "pong_frame now = JObj [(''type'', JStr ''pong''), (''timestamp'', JNum now)]"

definition subscribed_frame :: "int \<Rightarrow> json option \<Rightarrow> json" where
  "subscribed_frame now payload =
     JObj ([(''type'', JStr ''subscribed'')] @ opt_prop ''payload'' payload @ [(''timestamp'', JNum now)])"

definition error_frame :: "int \<Rightarrow> json" where
  "error_frame now =
     JObj [(''type'', JStr ''error''),
           (''payload'', JObj [(''message'', JStr ''Failed to process message'')]),
           (''timestamp'', JNum now)]"

text \<open>
  The \<^verbatim>\<open>try\<close> block of \<^verbatim>\<open>webSocketMessage\<close>. \<^verbatim>\<open>JSON.parse\<close> is the platform's parser:
  \<open>parse\<close> gives the parsed value, or \<open>None\<close> where the parser throws a SyntaxError.
  The \<^verbatim>\<open>switch\<close> compares \<^verbatim>\<open>data.type\<close> with \<^verbatim>\<open>===\<close>; the default case only logs.
\<close>

definition message_body ::
  "(string \<Rightarrow> json option) \<Rightarrow> (socket \<Rightarrow> bool) \<Rightarrow> int \<Rightarrow> socket \<Rightarrow> session \<Rightarrow> ws_message \<Rightarrow> hub
     \<Rightarrow> unit result \<times> hub" where
  "message_body parse fails now ws s message h =
     (case message of
        Binary b \<Rightarrow> (Returned (), h)
      | Text t \<Rightarrow>
          (case parse t of
             None \<Rightarrow> (Threw SyntaxError, h)
           | Some data \<Rightarrow>
               (case get_prop data ''type'' of
                  Threw e \<Rightarrow> (Threw e, h)
                | Returned ty \<Rightarrow>
                    if ty = Some (JStr ''ping'') then ws_send fails ws (pong_frame now) h
                    else if ty = Some (JStr ''subscribe'') then
                      (case get_prop data ''payload'' of
                         Threw e \<Rightarrow> (Threw e, h)
                       | Returned p \<Rightarrow> ws_send fails ws (subscribed_frame now p) h)
                    else if ty = Some (JStr ''broadcast'') then
                      broadcast fails now data (workspaceId s) h
                    else (Returned (), h))))"

text \<open>
  \<^verbatim>\<open>webSocketMessage(ws, message)\<close>: a socket without a session is ignored; whatever
  the \<^verbatim>\<open>try\<close> block throws is answered with an error frame to \<^verbatim>\<open>ws\<close>, and that send
  is outside any handler, so its own failure leaves the method. \<^verbatim>\<open>Date.now()\<close> is
  taken to give one reading, \<open>now\<close>, throughout a call.
\<close>

definition webSocketMessage ::
  "(string \<Rightarrow> json option) \<Rightarrow> (socket \<Rightarrow> bool) \<Rightarrow> int \<Rightarrow> socket \<Rightarrow> ws_message \<Rightarrow> hub
     \<Rightarrow> unit result \<times> hub" where
  "webSocketMessage parse fails now ws message h =
     (case sessions_get (sessions h) ws of
        None \<Rightarrow> (Returned (), h)
      | Some s \<Rightarrow>
          (case message_body parse fails now ws s message h of
             (Returned u, h1) \<Rightarrow> (Returned (), h1)
           | (Threw e, h1) \<Rightarrow> ws_send fails ws (error_frame now) h1))"

definition webSocketClose :: "socket \<Rightarrow> hub \<Rightarrow> hub" where
  "webSocketClose ws h = h\<lparr>sessions := sessions_delete (sessions h) ws\<rparr>"

definition webSocketError :: "socket \<Rightarrow> hub \<Rightarrow> hub" where
  "webSocketError ws h = h\<lparr>sessions := sessions_delete (sessions h) ws\<rparr>"

text \<open>
  \<^verbatim>\<open>fetch(request)\<close>. Of the request the method reads the \<^verbatim>\<open>Upgrade\<close> header and the
  query parameters \<^verbatim>\<open>agentId\<close> and \<^verbatim>\<open>workspaceId\<close> (\<open>None\<close> is JavaScript's \<^verbatim>\<open>null\<close>
  for a header or parameter that is absent). \<^verbatim>\<open>!x\<close> holds of \<^verbatim>\<open>null\<close> and of the empty
  string, so past the second check both parameters are present. The two ends of the
  \<^verbatim>\<open>WebSocketPair\<close> come from the platform.
\<close>

record request =
  upgrade :: "string option"
  q_agentId :: "string option"
  q_workspaceId :: "string option"

datatype body = NoBody | TextBody string | JsonBody json

text \<open>A header value: a string, or a number rendered by \<^verbatim>\<open>toString\<close>.\<close>

datatype hval = HStr string | HNum int

record response =
  status :: int
  headers :: "(string \<times> hval) list"
  resp_body :: body
  webSocket :: "socket option"

fun falsy :: "string option \<Rightarrow> bool" where
  "falsy None = True"
| "falsy (Some s) = (s = [])"

definition connected_frame :: "int \<Rightarrow> string \<Rightarrow> string \<Rightarrow> json" where
  "connected_frame now wid aid =
     JObj [(''type'', JStr ''connected''),
           (''payload'', JObj [(''message'', JStr ''Connected to Enque real-time server''),
                               (''workspaceId'', JStr wid),
                               (''agentId'', JStr aid)]),
           (''timestamp'', JNum now)]"

definition fetch ::
  "(socket \<Rightarrow> bool) \<Rightarrow> int \<Rightarrow> socket \<Rightarrow> socket \<Rightarrow> request \<Rightarrow> hub \<Rightarrow> response result \<times> hub" where
  "fetch fails now client server req h =
     (if upgrade req \<noteq> Some ''websocket'' then
        (Returned \<lparr>status = 426, headers = [], resp_body = TextBody ''Expected WebSocket'',
                   webSocket = None\<rparr>, h)
      else if falsy (q_agentId req) \<or> falsy (q_workspaceId req) then
        (Returned \<lparr>status = 400, headers = [],
                   resp_body = TextBody ''Missing agentId or workspaceId'', webSocket = None\<rparr>, h)
      else
        (let aid = the (q_agentId req); wid = the (q_workspaceId req);
             h1 = h\<lparr>sessions := sessions_set (sessions h) server \<lparr>agentId = aid, workspaceId = wid\<rparr>\<rparr>
         in case ws_send fails server (connected_frame now wid aid) h1 of
              (Threw e, h2) \<Rightarrow> (Threw e, h2)
            | (Returned u, h2) \<Rightarrow>
                (Returned \<lparr>status = 101, headers = [], resp_body = NoBody,
                           webSocket = Some client\<rparr>, h2)))"


text \<open>What the hub sent between two of its states, and the two sets a fan-out is about.\<close>

definition new_sends :: "hub \<Rightarrow> hub \<Rightarrow> (socket \<times> json) list" where
  "new_sends h h' = drop (length (sends h)) (sends h')"

definition recipients :: "string \<Rightarrow> (socket \<times> session) list \<Rightarrow> socket list" where
  "recipients wid es = map fst (filter (\<lambda>e. workspaceId (snd e) = wid) es)"

definition evicted :: "(socket \<Rightarrow> bool) \<Rightarrow> string \<Rightarrow> (socket \<times> session) list \<Rightarrow> socket list" where
  "evicted fails wid es = map fst (filter (\<lambda>e. workspaceId (snd e) = wid \<and> fails (fst e)) es)"


section \<open>The rate limiter (middleware/rate-limit.ts)\<close>

record RateLimitConfig =
  maxRequests :: int
  windowMs :: int
  keyPrefix :: "string option"

text \<open>The value kept under a key: \<^verbatim>\<open>{ count, resetAt }\<close>, times in milliseconds.\<close>

record rl_data =
  count :: int
  resetAt :: int

text \<open>
  The KV namespace \<^verbatim>\<open>c.env.CACHE\<close>. A cell is the value put and the
  \<^verbatim>\<open>expirationTtl\<close> (seconds) it was put with; a key the store has dropped is a key
  without a cell. A read or a write of the shared store can fail, which the binding
  reports by throwing: \<open>get_down\<close> and \<open>put_down\<close> say whether it does. The binding is a
  Cloudflare \<^verbatim>\<open>KVNamespace\<close> (types/env.ts), and that store refuses a write whose
  \<^verbatim>\<open>expirationTtl\<close> is under 60 seconds: such a \<^verbatim>\<open>put\<close> throws and stores nothing.
\<close>

record kv_cell =
  cell_data :: rl_data
  expirationTtl :: int

record kv =
  cells :: "string \<Rightarrow> kv_cell option"
  get_down :: bool
  put_down :: bool

definition kv_get :: "kv \<Rightarrow> string \<Rightarrow> rl_data option result" where
  "kv_get st key =
     (if get_down st then Threw StoreError else Returned (map_option cell_data (cells st key)))"

definition kv_put :: "kv \<Rightarrow> string \<Rightarrow> rl_data \<Rightarrow> int \<Rightarrow> kv result" where
  "kv_put st key v ttl =
     (if put_down st then Threw StoreError
      else if ttl < 60 then Threw TtlError
      else Returned (st\<lparr>cells := (cells st)(key \<mapsto> \<lparr>cell_data = v, expirationTtl = ttl\<rparr>)\<rparr>))"

text \<open>
  What the middleware reads of the Hono context: the flag \<^verbatim>\<open>c.env.ENABLE_RATE_LIMITING\<close>,
  the id of \<^verbatim>\<open>c.get('agent')\<close> where there is one, and the \<^verbatim>\<open>CF-Connecting-IP\<close> header.
\<close>

record ctx =
  ENABLE_RATE_LIMITING :: bool
  agent_id :: "string option"
  cf_connecting_ip :: "string option"

text \<open>\<^verbatim>\<open>a || b\<close> on an optional string: \<^verbatim>\<open>undefined\<close> and the empty string give \<^verbatim>\<open>b\<close>.\<close>

fun or_else :: "string option \<Rightarrow> string \<Rightarrow> string" where
  "or_else None d = d"
| "or_else (Some s) d = (if s = [] then d else s)"

definition rl_identifier :: "ctx \<Rightarrow> string" where
  "rl_identifier c = or_else (agent_id c) (or_else (cf_connecting_ip c) ''anonymous'')"

definition rl_key :: "RateLimitConfig \<Rightarrow> ctx \<Rightarrow> string" where
  "rl_key config c =
     (case keyPrefix config of None \<Rightarrow> ''ratelimit'' | Some p \<Rightarrow> p) @ '':'' @ rl_identifier c"

text \<open>\<^verbatim>\<open>Math.ceil(ms / 1000)\<close> on an integer number of milliseconds.\<close>

definition ceil_seconds :: "int \<Rightarrow> int" where
  "ceil_seconds ms = - ((- ms) div 1000)"

text \<open>
  The middleware either calls \<^verbatim>\<open>next()\<close>, after setting the listed headers on
  \<^verbatim>\<open>c.res\<close>, or returns a response of its own without calling \<^verbatim>\<open>next()\<close>. In the
  429 response the source writes \<^verbatim>\<open>X-RateLimit-Remaining\<close> as the text \<^verbatim>\<open>'0'\<close>, which is
  the rendering of the number 0.
\<close>

datatype rl_outcome = Next "(string \<times> hval) list" | Respond response

definition too_many :: "int \<Rightarrow> int \<Rightarrow> int \<Rightarrow> response" where
  "too_many retryAfter limit reset =
     \<lparr>status = 429,
      headers = [(''Content-Type'', HStr ''application/json''),
                 (''Retry-After'', HNum retryAfter),
                 (''X-RateLimit-Limit'', HNum limit),
                 (''X-RateLimit-Remaining'', HNum 0),
                 (''X-RateLimit-Reset'', HNum reset)],
      resp_body = JsonBody (JObj [(''success'', JBool False),
                    (''error'', JObj [(''code'', JStr ''RATE_LIMIT_EXCEEDED''),
                                      (''message'', JStr ''Too many requests'')])]),
      webSocket = None\<rparr>"

definition rate_headers :: "int \<Rightarrow> int \<Rightarrow> int \<Rightarrow> (string \<times> hval) list" where
  "rate_headers limit remaining reset =
     [(''X-RateLimit-Limit'', HNum limit),
      (''X-RateLimit-Remaining'', HNum remaining),
      (''X-RateLimit-Reset'', HNum reset)]"

text \<open>
  The handler that \<^verbatim>\<open>rateLimitMiddleware(config)\<close> returns, run at clock reading \<open>now\<close>
  on the store \<open>st\<close>. No statement of it is inside a \<^verbatim>\<open>try\<close>: what \<^verbatim>\<open>CACHE.get\<close> or
  \<^verbatim>\<open>CACHE.put\<close> throws leaves the handler. The branch that resets an expired window sets
  no header. The branch that increments passes the seconds left in the window as
  \<^verbatim>\<open>expirationTtl\<close>.
\<close>

definition rateLimitMiddleware ::
  "RateLimitConfig \<Rightarrow> ctx \<Rightarrow> int \<Rightarrow> kv \<Rightarrow> rl_outcome result \<times> kv" where
  "rateLimitMiddleware config c now st =
     (if \<not> ENABLE_RATE_LIMITING c then (Returned (Next []), st)
      else
        (let key = rl_key config c in
         case kv_get st key of
           Threw e \<Rightarrow> (Threw e, st)
         | Returned currentData \<Rightarrow>
             (case currentData of
                Some cd \<Rightarrow>
                  if now > resetAt cd then
                    (case kv_put st key \<lparr>count = 1, resetAt = now + windowMs config\<rparr>
                            (ceil_seconds (windowMs config)) of
                       Threw e \<Rightarrow> (Threw e, st)
                     | Returned st' \<Rightarrow> (Returned (Next []), st'))
                  else if count cd \<ge> maxRequests config then
                    (Returned (Respond (too_many (ceil_seconds (resetAt cd - now))
                                          (maxRequests config) (resetAt cd))), st)
                  else
                    (case kv_put st key \<lparr>count = count cd + 1, resetAt = resetAt cd\<rparr>
                            (ceil_seconds (resetAt cd - now)) of
                       Threw e \<Rightarrow> (Threw e, st)
                     | Returned st' \<Rightarrow>
                         (Returned (Next (rate_headers (maxRequests config)
                                            (maxRequests config - count cd - 1) (resetAt cd))), st'))
              | None \<Rightarrow>
                  (case kv_put st key \<lparr>count = 1, resetAt = now + windowMs config\<rparr>
                          (ceil_seconds (windowMs config)) of
                     Threw e \<Rightarrow> (Threw e, st)
                   | Returned st' \<Rightarrow>
                       (Returned (Next (rate_headers (maxRequests config)
                                          (maxRequests config - 1) (now + windowMs config))), st')))))"

text \<open>The predefined policies \<^verbatim>\<open>RateLimits\<close>.\<close>

definition RateLimits_auth :: RateLimitConfig where
  "RateLimits_auth = \<lparr>maxRequests = 10, windowMs = 15 * 60 * 1000, keyPrefix = Some ''rl:auth''\<rparr>"

definition RateLimits_api :: RateLimitConfig where
  "RateLimits_api = \<lparr>maxRequests = 100, windowMs = 60 * 1000, keyPrefix = Some ''rl:api''\<rparr>"

definition RateLimits_read :: RateLimitConfig where
  "RateLimits_read = \<lparr>maxRequests = 200, windowMs = 60 * 1000, keyPrefix = Some ''rl:read''\<rparr>"

definition RateLimits_write :: RateLimitConfig where
  "RateLimits_write = \<lparr>maxRequests = 50, windowMs = 60 * 1000, keyPrefix = Some ''rl:write''\<rparr>"

text \<open>
  Requests of one caller under one policy, one after the other at the given clock
  readings, each on the store the one before left.
\<close>

fun checks :: "RateLimitConfig \<Rightarrow> ctx \<Rightarrow> int list \<Rightarrow> kv \<Rightarrow> rl_outcome result list \<times> kv" where
  "checks config c [] st = ([], st)"
| "checks config c (t # ts) st =
     (case rateLimitMiddleware config c t st of
        (r, st1) \<Rightarrow> (case checks config c ts st1 of (rs, st2) \<Rightarrow> (r # rs, st2)))"

text \<open>A request is admitted when \<^verbatim>\<open>next()\<close> is called; what it then reports as remaining.\<close>

fun admitted :: "rl_outcome result \<Rightarrow> bool" where
  "admitted (Returned (Next hs)) = True"
| "admitted _ = False"

fun remaining :: "rl_outcome result \<Rightarrow> hval option" where
  "remaining (Returned (Next hs)) = map_of hs ''X-RateLimit-Remaining''"
| "remaining (Returned (Respond r)) = map_of (headers r) ''X-RateLimit-Remaining''"
| "remaining (Threw e) = None"


section \<open>Sample data\<close>

definition demo_sessions :: "(socket \<times> session) list" where
  "demo_sessions =
     [(1, \<lparr>agentId = ''A1'', workspaceId = ''W1''\<rparr>),
      (2, \<lparr>agentId = ''A2'', workspaceId = ''W1''\<rparr>),
      (3, \<lparr>agentId = ''A3'', workspaceId = ''W2''\<rparr>)]"

definition demo_hub :: hub where
  "demo_hub = \<lparr>sessions = demo_sessions, sends = []\<rparr>"

text \<open>
  A broadcast frame whose sender names another tenant inside it, and a parser that
  knows three texts and rejects every other.
\<close>

definition demo_text :: string where
  \<open>demo_text = ''{"type":"broadcast","workspaceId":"W1","payload":{"x":1}}''\<close>

definition demo_data :: json where
  "demo_data = JObj [(''type'', JStr ''broadcast''), (''workspaceId'', JStr ''W1''),
                     (''payload'', JObj [(''x'', JNum 1)])]"

definition demo_parse :: "string \<Rightarrow> json option" where
  "demo_parse t =
     (if t = demo_text then Some demo_data
      else if t = ''null'' then Some JNull
      else if t = ''42'' then Some (JNum 42)
      else None)"

definition demo_event :: json where
  "demo_event = JObj [(''type'', JStr ''ticket_updated''), (''payload'', JObj [(''id'', JNum 7)])]"

definition demo_config :: RateLimitConfig where
  "demo_config = \<lparr>maxRequests = 3, windowMs = 60000, keyPrefix = Some ''rl:api''\<rparr>"

definition demo_ctx :: ctx where
  "demo_ctx = \<lparr>ENABLE_RATE_LIMITING = True, agent_id = None,
               cf_connecting_ip = Some ''203.0.113.9''\<rparr>"

definition empty_store :: kv where
  "empty_store = \<lparr>cells = (\<lambda>k. None), get_down = False, put_down = False\<rparr>"

definition store_with :: "int \<Rightarrow> int \<Rightarrow> kv" where
  "store_with n r =
     \<lparr>cells = (\<lambda>k. if k = ''rl:api:203.0.113.9''
                    then Some \<lparr>cell_data = \<lparr>count = n, resetAt = r\<rparr>, expirationTtl = 60\<rparr>
                    else None),
      get_down = False, put_down = False\<rparr>"


section \<open>The fan-out in closed form\<close>

lemma broadcast_loop_eq:
  "broadcast_loop fails f wid es h =
     (Returned (),
      h\<lparr>sessions := filter (\<lambda>e. fst e \<notin> set (evicted fails wid es)) (sessions h),
        sends := sends h @ map (\<lambda>w. (w, f)) (recipients wid es)\<rparr>)"
proof (induction es arbitrary: h)
  case Nil
  show ?case by (simp add: evicted_def recipients_def)
next
  case (Cons e es)
  obtain ws s where e: "e = (ws, s)" by (cases e)
  show ?case
    unfolding e
    by (auto simp: Cons.IH ws_send_def sessions_delete_def evicted_def recipients_def
             intro!: filter_cong)
qed

lemma map_ok_lookup:
  "map_ok m \<Longrightarrow> (w, s) \<in> set m \<Longrightarrow> sessions_get m w = Some s"
  by (simp add: map_ok_def sessions_get_def)

lemma lookup_mem: "sessions_get m w = Some s \<Longrightarrow> (w, s) \<in> set m"
  by (simp add: sessions_get_def map_of_SomeD)

lemma evicted_filter:
  assumes "map_ok m"
  shows "filter (\<lambda>e. fst e \<notin> set (evicted fails wid m)) m
       = filter (\<lambda>e. \<not> (workspaceId (snd e) = wid \<and> fails (fst e))) m"
proof (rule filter_cong[OF refl])
  fix e assume em: "e \<in> set m"
  have "fst e \<in> set (evicted fails wid m) \<longleftrightarrow> workspaceId (snd e) = wid \<and> fails (fst e)"
  proof
    assume "fst e \<in> set (evicted fails wid m)"
    then obtain e' where e': "e' \<in> set m" "fst e' = fst e" "workspaceId (snd e') = wid" "fails (fst e')"
      by (auto simp: evicted_def)
    from assms em e'(1,2) have "e' = e"
      by (metis map_ok_def eq_key_imp_eq_value prod.collapse)
    with e' show "workspaceId (snd e) = wid \<and> fails (fst e)" by simp
  next
    assume "workspaceId (snd e) = wid \<and> fails (fst e)"
    with em show "fst e \<in> set (evicted fails wid m)" by (auto simp: evicted_def)
  qed
  then show "(fst e \<notin> set (evicted fails wid m)) = (\<not> (workspaceId (snd e) = wid \<and> fails (fst e)))"
    by simp
qed

lemma broadcast_eq:
  "broadcast fails now message wid h =
     (Returned (),
      h\<lparr>sessions := filter (\<lambda>e. fst e \<notin> set (evicted fails wid (sessions h))) (sessions h),
        sends := sends h @ map (\<lambda>w. (w, broadcast_frame now message)) (recipients wid (sessions h))\<rparr>)"
  by (simp add: broadcast_def broadcast_loop_eq)


lemma new_sends_append: "sends h' = sends h @ xs \<Longrightarrow> new_sends h h' = xs"
  by (simp add: new_sends_def)


lemma message_body_cases:
  "message_body parse fails now ws s m h = (Returned (), h)
   \<or> message_body parse fails now ws s m h = (Threw SyntaxError, h)
   \<or> message_body parse fails now ws s m h = (Threw TypeError, h)
   \<or> (\<exists>f. message_body parse fails now ws s m h = ws_send fails ws f h)
   \<or> (\<exists>d. message_body parse fails now ws s m h = broadcast fails now d (workspaceId s) h)"
proof (cases m)
  case (Binary b)
  then show ?thesis by (simp add: message_body_def)
next
  case (Text t)
  show ?thesis
  proof (cases "parse t")
    case None
    with Text show ?thesis by (simp add: message_body_def)
  next
    case (Some data)
    show ?thesis
    proof (cases "get_prop data ''type''")
      case (Threw e)
      then have "e = TypeError" by (cases data) auto
      with Text Some Threw show ?thesis by (simp add: message_body_def)
    next
      case (Returned ty)
      then have "\<And>k. \<exists>p. get_prop data k = Returned p" by (cases data) auto
      then obtain p where "get_prop data ''payload'' = Returned p" by blast
      with Text Some Returned show ?thesis
        by (simp add: message_body_def) blast
    qed
  qed
qed


lemma recipients_registered:
  assumes "map_ok m" and "w \<in> set (recipients wid m)"
  shows "\<exists>s. sessions_get m w = Some s \<and> workspaceId s = wid"
proof -
  from assms(2) obtain s where "(w, s) \<in> set m" "workspaceId s = wid"
    by (auto simp: recipients_def)
  with assms(1) show ?thesis by (auto dest: map_ok_lookup)
qed

lemma registered_recipient:
  "sessions_get m w = Some s \<Longrightarrow> w \<in> set (recipients (workspaceId s) m)"
  by (force simp: recipients_def dest: lookup_mem)

lemma ws_send_sends: "sends (snd (ws_send fails ws f h)) = sends h @ [(ws, f)]"
  by (simp add: ws_send_def)

lemma ws_send_sessions: "sessions (snd (ws_send fails ws f h)) = sessions h"
  by (simp add: ws_send_def)

lemma webSocketMessage_sends:
  assumes "sessions_get (sessions h) ws = Some s"
  shows "\<exists>xs. sends (snd (webSocketMessage parse fails now ws m h)) = sends h @ xs
           \<and> fst ` set xs \<subseteq> insert ws (set (recipients (workspaceId s) (sessions h)))"
proof -
  let ?b = "message_body parse fails now ws s m h"
  have wm: "webSocketMessage parse fails now ws m h =
        (case ?b of (Returned u, h1) \<Rightarrow> (Returned (), h1)
                  | (Threw e, h1) \<Rightarrow> ws_send fails ws (error_frame now) h1)"
    using assms by (simp add: webSocketMessage_def)
  from message_body_cases [of parse fails now ws s m h]
  consider (ret) "?b = (Returned (), h)"
    | (thr) e where "?b = (Threw e, h)"
    | (snd) f where "?b = ws_send fails ws f h"
    | (bc) d where "?b = broadcast fails now d (workspaceId s) h"
    by blast
  then show ?thesis
  proof cases
    case ret
    then show ?thesis by (simp add: wm)
  next
    case thr
    then show ?thesis by (simp add: wm ws_send_def)
  next
    case snd
    then show ?thesis by (simp add: wm ws_send_def)
  next
    case bc
    then show ?thesis by (auto simp: wm broadcast_eq)
  qed
qed


text \<open>
  One entry per socket is an invariant of the hub: it holds of the empty registry the
  constructor makes, and every method keeps it.
\<close>

lemma map_ok_empty: "map_ok []"
  by (simp add: map_ok_def)

lemma sessions_set_keys: "set (map fst (sessions_set m ws s)) = insert ws (set (map fst m))"
  by (induction m ws s rule: sessions_set.induct) auto

lemma map_ok_set: "map_ok m \<Longrightarrow> map_ok (sessions_set m ws s)"
proof (induction m ws s rule: sessions_set.induct)
  case (1 ws s)
  show ?case by (simp add: map_ok_def)
next
  case (2 w s' m ws s)
  show ?case
  proof (cases "w = ws")
    case True
    with 2 show ?thesis by (simp add: map_ok_def)
  next
    case False
    with 2 have "map_ok (sessions_set m ws s)" by (simp add: map_ok_def)
    moreover from 2(2) have "w \<notin> set (map fst m)" by (simp add: map_ok_def)
    ultimately show ?thesis
      using False sessions_set_keys [of m ws s] by (simp add: map_ok_def)
  qed
qed

lemma map_ok_filter: "map_ok m \<Longrightarrow> map_ok (filter P m)"
  by (simp add: map_ok_def distinct_map_filter)

lemma map_ok_delete: "map_ok m \<Longrightarrow> map_ok (sessions_delete m ws)"
  by (simp add: sessions_delete_def map_ok_filter)

lemma map_ok_broadcast:
  "map_ok (sessions h) \<Longrightarrow> map_ok (sessions (snd (broadcast fails now message wid h)))"
  by (simp add: broadcast_eq map_ok_filter)

lemma map_ok_webSocketMessage:
  assumes "map_ok (sessions h)"
  shows "map_ok (sessions (snd (webSocketMessage parse fails now ws m h)))"
proof (cases "sessions_get (sessions h) ws")
  case None
  with assms show ?thesis by (simp add: webSocketMessage_def)
next
  case (Some s)
  let ?b = "message_body parse fails now ws s m h"
  have wm: "webSocketMessage parse fails now ws m h =
        (case ?b of (Returned u, h1) \<Rightarrow> (Returned (), h1)
                  | (Threw e, h1) \<Rightarrow> ws_send fails ws (error_frame now) h1)"
    using Some by (simp add: webSocketMessage_def)
  from message_body_cases [of parse fails now ws s m h]
  consider (ret) "?b = (Returned (), h)"
    | (thr) e where "?b = (Threw e, h)"
    | (snd) f where "?b = ws_send fails ws f h"
    | (bc) d where "?b = broadcast fails now d (workspaceId s) h"
    by blast
  then show ?thesis
  proof cases
    case ret
    with assms show ?thesis by (simp add: wm)
  next
    case thr
    with assms show ?thesis by (simp add: wm ws_send_def)
  next
    case snd
    with assms show ?thesis by (simp add: wm ws_send_def)
  next
    case bc
    with assms show ?thesis by (simp add: wm broadcast_eq map_ok_filter)
  qed
qed

lemma map_ok_fetch:
  "map_ok (sessions h) \<Longrightarrow> map_ok (sessions (snd (fetch fails now client server req h)))"
  by (simp add: fetch_def Let_def ws_send_def map_ok_set)

lemma map_ok_close:
  "map_ok (sessions h) \<Longrightarrow> map_ok (sessions (webSocketClose ws h))"
  "map_ok (sessions h) \<Longrightarrow> map_ok (sessions (webSocketError ws h))"
  by (simp_all add: webSocketClose_def webSocketError_def map_ok_delete)


section \<open>Properties of the hub\<close>

text \<open>
  C1. Whatever the registry holds, a delivery scoped to tenant \<open>T\<close> reaches only
  sessions registered under \<open>T\<close>. For \<^verbatim>\<open>notifyClients(T, message)\<close>: every send it
  makes goes to a socket whose registered \<^verbatim>\<open>workspaceId\<close> is \<open>T\<close>. For an inbound frame
  of any kind (a broadcast among them) from a socket registered under tenant
  \<open>workspaceId s\<close>: every send the handler makes goes to a socket registered under that
  same tenant. The sends made are the ones appended to the log, which is otherwise left
  as it was. The registry is a \<^verbatim>\<open>Map\<close>, which has one entry per socket.
\<close>

theorem tenant_isolation:
  assumes "map_ok (sessions h)"
  shows "(let h' = snd (notifyClients fails now T message h) in
            sends h' = sends h @ new_sends h h' \<and>
            (\<forall>e \<in> set (new_sends h h').
               \<exists>s. sessions_get (sessions h) (fst e) = Some s \<and> workspaceId s = T))
       \<and> (\<forall>s. sessions_get (sessions h) ws = Some s \<longrightarrow>
            (let h' = snd (webSocketMessage parse fails now ws m h) in
               sends h' = sends h @ new_sends h h' \<and>
               (\<forall>e \<in> set (new_sends h h').
                  \<exists>s'. sessions_get (sessions h) (fst e) = Some s' \<and> workspaceId s' = workspaceId s)))"
proof (intro conjI allI impI)
  let ?h' = "snd (notifyClients fails now T message h)"
  have ns: "new_sends h ?h' = map (\<lambda>w. (w, broadcast_frame now message)) (recipients T (sessions h))"
    by (simp add: notifyClients_def broadcast_eq new_sends_def)
  show "let h' = ?h' in
            sends h' = sends h @ new_sends h h' \<and>
            (\<forall>e \<in> set (new_sends h h').
               \<exists>s. sessions_get (sessions h) (fst e) = Some s \<and> workspaceId s = T)"
    unfolding Let_def ns
    using recipients_registered [OF assms]
    by (auto simp: notifyClients_def broadcast_eq)
next
  fix s assume reg: "sessions_get (sessions h) ws = Some s"
  let ?h' = "snd (webSocketMessage parse fails now ws m h)"
  from webSocketMessage_sends [OF reg, of parse fails now m]
  obtain xs where xs: "sends ?h' = sends h @ xs"
    "fst ` set xs \<subseteq> insert ws (set (recipients (workspaceId s) (sessions h)))"
    by blast
  have ns: "new_sends h ?h' = xs" using xs(1) by (rule new_sends_append)
  have "\<exists>s'. sessions_get (sessions h) (fst e) = Some s' \<and> workspaceId s' = workspaceId s"
    if "e \<in> set xs" for e
  proof -
    from that xs(2) have "fst e = ws \<or> fst e \<in> set (recipients (workspaceId s) (sessions h))"
      by auto
    then show ?thesis
      using reg recipients_registered [OF assms] by auto
  qed
  then show "let h' = ?h' in
               sends h' = sends h @ new_sends h h' \<and>
               (\<forall>e \<in> set (new_sends h h').
                  \<exists>s'. sessions_get (sessions h) (fst e) = Some s' \<and> workspaceId s' = workspaceId s)"
    unfolding Let_def ns using xs(1) by simp
qed


theorem tenant_isolation_witness:
  "map_ok (sessions demo_hub)
   \<and> map (\<lambda>w. map_option workspaceId (sessions_get (sessions demo_hub) w)) [1, 2, 3]
       = [Some ''W1'', Some ''W1'', Some ''W2'']
   \<and> map fst (new_sends demo_hub (snd (notifyClients (\<lambda>w. w = 2) 1000 ''W1'' demo_event demo_hub)))
       = [1, 2]
   \<and> map fst (new_sends demo_hub (snd (webSocketMessage demo_parse (\<lambda>w. w = 2) 1000 3
                   (Text demo_text) demo_hub))) = [3]"
proof -
  have h: "map_ok (sessions demo_hub)"
    by (simp add: map_ok_def demo_hub_def demo_sessions_def)
  show ?thesis
    using h
      tenant_isolation [OF h, of "\<lambda>w. w = 2" 1000 "''W1''" demo_event 3 demo_parse
         "Text demo_text"]
    by (simp add: new_sends_def notifyClients_def webSocketMessage_def message_body_def
          broadcast_eq recipients_def sessions_get_def demo_hub_def demo_sessions_def
          demo_parse_def demo_data_def)
qed

lemma map_of_obj_set:
  "map_of (obj_set kvs k v) k' = (if k' = k then Some v else map_of kvs k')"
  by (induction kvs k v rule: obj_set.induct) auto

lemma broadcast_frame_props:
  assumes "get_prop data ''type'' = Returned (Some ty)"
  shows "get_prop (broadcast_frame now data) k
           = (if k = ''timestamp'' then Returned (Some (JNum now)) else get_prop data k)"
proof -
  from assms obtain kvs where "data = JObj kvs" by (cases data) auto
  then show ?thesis by (simp add: broadcast_frame_def map_of_obj_set)
qed

lemma webSocketMessage_broadcast:
  assumes "sessions_get (sessions h) ws = Some s"
      and "parse t = Some data"
      and "get_prop data ''type'' = Returned (Some (JStr ''broadcast''))"
  shows "webSocketMessage parse fails now ws (Text t) h = broadcast fails now data (workspaceId s) h"
  using assms by (simp add: webSocketMessage_def message_body_def broadcast_eq)

text \<open>
  C2. A text frame from a registered session \<open>ws\<close> that parses to a value whose
  \<^verbatim>\<open>type\<close> is \<^verbatim>\<open>'broadcast'\<close> is fanned out under the tenant the session was
  registered with: the handler returns normally, and the sends it makes are one send of
  the frame \<^verbatim>\<open>{...data, timestamp}\<close> to each socket registered under that tenant, in
  registry order. The recipients are computed from the registry and the sender's
  \<^verbatim>\<open>workspaceId\<close> alone, so a \<^verbatim>\<open>workspaceId\<close> inside the frame has no say in them.
  The sender is among the recipients, and so is every session registered under the
  sender's tenant; the frame reaches each of them whose send does not throw. The frame
  sent is the inbound one with the hub's clock reading as its \<^verbatim>\<open>timestamp\<close>: its
  \<^verbatim>\<open>timestamp\<close> is \<open>now\<close>, every other property is the inbound frame's (so its \<^verbatim>\<open>type\<close>
  is \<^verbatim>\<open>'broadcast'\<close> and its \<^verbatim>\<open>payload\<close> the one submitted).
\<close>

theorem inbound_broadcast_fan_out:
  assumes "sessions_get (sessions h) ws = Some s"
      and "parse t = Some data"
      and "get_prop data ''type'' = Returned (Some (JStr ''broadcast''))"
  shows "fst (webSocketMessage parse fails now ws (Text t) h) = Returned ()
       \<and> new_sends h (snd (webSocketMessage parse fails now ws (Text t) h))
           = map (\<lambda>w. (w, broadcast_frame now data)) (recipients (workspaceId s) (sessions h))
       \<and> (ws, broadcast_frame now data)
           \<in> set (new_sends h (snd (webSocketMessage parse fails now ws (Text t) h)))
       \<and> (\<forall>w s'. sessions_get (sessions h) w = Some s' \<and> workspaceId s' = workspaceId s \<longrightarrow>
            (w, broadcast_frame now data)
              \<in> set (new_sends h (snd (webSocketMessage parse fails now ws (Text t) h))))
       \<and> (\<forall>w s'. sessions_get (sessions h) w = Some s' \<and> workspaceId s' = workspaceId s
                   \<and> \<not> fails w \<longrightarrow>
            (w, broadcast_frame now data)
              \<in> set (delivered fails
                      (new_sends h (snd (webSocketMessage parse fails now ws (Text t) h)))))
       \<and> get_prop (broadcast_frame now data) ''timestamp'' = Returned (Some (JNum now))
       \<and> (\<forall>k. k \<noteq> ''timestamp'' \<longrightarrow> get_prop (broadcast_frame now data) k = get_prop data k)
       \<and> get_prop (broadcast_frame now data) ''type'' = Returned (Some (JStr ''broadcast''))
       \<and> get_prop (broadcast_frame now data) ''payload'' = get_prop data ''payload''"
proof -
  let ?h' = "snd (webSocketMessage parse fails now ws (Text t) h)"
  have ns: "new_sends h ?h'
      = map (\<lambda>w. (w, broadcast_frame now data)) (recipients (workspaceId s) (sessions h))"
    by (simp add: webSocketMessage_broadcast [where parse = parse and t = t, OF assms] broadcast_eq new_sends_def)
  have all: "(w, broadcast_frame now data) \<in> set (new_sends h ?h')"
    if "sessions_get (sessions h) w = Some s'" "workspaceId s' = workspaceId s" for w s'
    using registered_recipient [OF that(1)] that(2) by (simp add: ns)
  have ret: "fst (webSocketMessage parse fails now ws (Text t) h) = Returned ()"
    by (simp add: webSocketMessage_broadcast [where parse = parse and t = t, OF assms] broadcast_eq)
  have dl: "(w, broadcast_frame now data) \<in> set (delivered fails (new_sends h ?h'))"
    if "sessions_get (sessions h) w = Some s'" "workspaceId s' = workspaceId s" "\<not> fails w"
    for w s'
    using all [OF that(1,2)] that(3) by (simp add: delivered_def)
  note fp = broadcast_frame_props [OF assms(3), of now]
  have f1: "get_prop (broadcast_frame now data) ''timestamp'' = Returned (Some (JNum now))"
    by (simp add: fp)
  have f2: "get_prop (broadcast_frame now data) k = get_prop data k" if "k \<noteq> ''timestamp''" for k
    using that by (simp add: fp)
  have f3: "get_prop (broadcast_frame now data) ''type'' = Returned (Some (JStr ''broadcast''))"
    by (simp add: fp assms(3))
  have f4: "get_prop (broadcast_frame now data) ''payload'' = get_prop data ''payload''"
    by (simp add: fp)
  from ret ns all [OF assms(1) refl] all dl f1 f2 f3 f4 show ?thesis by blast
qed

theorem inbound_broadcast_fan_out_witness:
  "sessions_get (sessions demo_hub) 1 = Some \<lparr>agentId = ''A1'', workspaceId = ''W1''\<rparr>
   \<and> demo_parse demo_text = Some demo_data
   \<and> get_prop demo_data ''type'' = Returned (Some (JStr ''broadcast''))
   \<and> get_prop demo_data ''workspaceId'' = Returned (Some (JStr ''W1''))
   \<and> new_sends demo_hub (snd (webSocketMessage demo_parse (\<lambda>w. False) 1000 1 (Text demo_text) demo_hub))
       = [(1, JObj [(''type'', JStr ''broadcast''), (''workspaceId'', JStr ''W1''),
                    (''payload'', JObj [(''x'', JNum 1)]), (''timestamp'', JNum 1000)]),
          (2, JObj [(''type'', JStr ''broadcast''), (''workspaceId'', JStr ''W1''),
                    (''payload'', JObj [(''x'', JNum 1)]), (''timestamp'', JNum 1000)])]
   \<and> new_sends demo_hub (snd (webSocketMessage demo_parse (\<lambda>w. False) 1000 3 (Text demo_text) demo_hub))
       = [(3, JObj [(''type'', JStr ''broadcast''), (''workspaceId'', JStr ''W1''),
                    (''payload'', JObj [(''x'', JNum 1)]), (''timestamp'', JNum 1000)])]"
proof -
  have a: "sessions_get (sessions demo_hub) 1 = Some \<lparr>agentId = ''A1'', workspaceId = ''W1''\<rparr>"
    by (simp add: sessions_get_def demo_hub_def demo_sessions_def)
  have b: "demo_parse demo_text = Some demo_data"
    by (simp add: demo_parse_def)
  have c: "get_prop demo_data ''type'' = Returned (Some (JStr ''broadcast''))"
    by (simp add: demo_data_def)
  have d: "get_prop demo_data ''workspaceId'' = Returned (Some (JStr ''W1''))"
    by (simp add: demo_data_def)
  have fr: "broadcast_frame 1000 demo_data
      = JObj [(''type'', JStr ''broadcast''), (''workspaceId'', JStr ''W1''),
              (''payload'', JObj [(''x'', JNum 1)]), (''timestamp'', JNum 1000)]"
    by (simp add: broadcast_frame_def demo_data_def)
  note t = inbound_broadcast_fan_out [where parse = demo_parse and t = demo_text
      and fails = "\<lambda>w. False" and now = 1000, OF a b c]
  have e: "new_sends demo_hub (snd (webSocketMessage demo_parse (\<lambda>w. False) 1000 1 (Text demo_text) demo_hub))
       = [(1, JObj [(''type'', JStr ''broadcast''), (''workspaceId'', JStr ''W1''),
                    (''payload'', JObj [(''x'', JNum 1)]), (''timestamp'', JNum 1000)]),
          (2, JObj [(''type'', JStr ''broadcast''), (''workspaceId'', JStr ''W1''),
                    (''payload'', JObj [(''x'', JNum 1)]), (''timestamp'', JNum 1000)])]"
    unfolding t [THEN conjunct2, THEN conjunct1] fr
    by (simp add: recipients_def demo_hub_def demo_sessions_def)
  have f: "new_sends demo_hub (snd (webSocketMessage demo_parse (\<lambda>w. False) 1000 3 (Text demo_text) demo_hub))
       = [(3, JObj [(''type'', JStr ''broadcast''), (''workspaceId'', JStr ''W1''),
                    (''payload'', JObj [(''x'', JNum 1)]), (''timestamp'', JNum 1000)])]"
    by (simp add: new_sends_def webSocketMessage_def message_body_def b c fr
          broadcast_eq recipients_def sessions_get_def demo_hub_def demo_sessions_def)
  show ?thesis
    by (intro conjI) (rule a b c d e f)+
qed

text \<open>
  C7. A fan-out never throws, whichever sends fail. It attempts one send to every
  session of the tenant, the failing ones included and the ones after a failing one
  included; afterwards the registry is the old one without the tenant's sessions whose
  send failed, so such a session is no longer registered. The eviction happens at the
  failing entry, before the next entry is visited: the loop on a failing entry of the
  tenant is the loop on the remaining entries, run on the registry without that session.
\<close>

theorem fan_out_evicts_and_continues:
  assumes "map_ok (sessions h)"
  shows "fst (broadcast fails now message wid h) = Returned ()
       \<and> map fst (new_sends h (snd (broadcast fails now message wid h))) = recipients wid (sessions h)
       \<and> sessions (snd (broadcast fails now message wid h))
           = filter (\<lambda>e. \<not> (workspaceId (snd e) = wid \<and> fails (fst e))) (sessions h)
       \<and> (\<forall>w s. sessions_get (sessions h) w = Some s \<and> workspaceId s = wid \<and> fails w \<longrightarrow>
            sessions_get (sessions (snd (broadcast fails now message wid h))) w = None)
       \<and> (\<forall>w s f rest. workspaceId s = wid \<and> fails w \<longrightarrow>
            broadcast_loop fails f wid ((w, s) # rest) h
              = broadcast_loop fails f wid rest
                  (h\<lparr>sends := sends h @ [(w, f)], sessions := sessions_delete (sessions h) w\<rparr>))"
proof -
  let ?h' = "snd (broadcast fails now message wid h)"
  have s': "sessions ?h' = filter (\<lambda>e. \<not> (workspaceId (snd e) = wid \<and> fails (fst e))) (sessions h)"
    by (simp add: broadcast_eq evicted_filter [OF assms])
  have gone: "sessions_get (sessions ?h') w = None"
    if "sessions_get (sessions h) w = Some s" "workspaceId s = wid" "fails w" for w s
  proof -
    have "w \<notin> fst ` set (sessions ?h')"
    proof
      assume "w \<in> fst ` set (sessions ?h')"
      then obtain s2 where m: "(w, s2) \<in> set (sessions h)" and n: "\<not> (workspaceId s2 = wid \<and> fails w)"
        unfolding s' by auto
      from map_ok_lookup [OF assms m] that(1) have "s2 = s" by simp
      with n that show False by simp
    qed
    then show ?thesis by (simp add: sessions_get_def map_of_eq_None_iff)
  qed
  have step: "broadcast_loop fails f wid ((w, s) # rest) h
              = broadcast_loop fails f wid rest
                  (h\<lparr>sends := sends h @ [(w, f)], sessions := sessions_delete (sessions h) w\<rparr>)"
    if "workspaceId s = wid \<and> fails w" for w s f rest
    using that by (simp add: ws_send_def)
  have r: "fst (broadcast fails now message wid h) = Returned ()"
    by (simp add: broadcast_eq)
  have n: "map fst (new_sends h ?h') = recipients wid (sessions h)"
    by (simp add: broadcast_eq new_sends_def comp_def)
  show ?thesis
  proof (intro conjI allI impI)
    show "fst (broadcast fails now message wid h) = Returned ()" by (rule r)
  next
    show "map fst (new_sends h ?h') = recipients wid (sessions h)" by (rule n)
  next
    show "sessions ?h' = filter (\<lambda>e. \<not> (workspaceId (snd e) = wid \<and> fails (fst e))) (sessions h)"
      by (rule s')
  next
    fix w s
    assume "sessions_get (sessions h) w = Some s \<and> workspaceId s = wid \<and> fails w"
    then have "sessions_get (sessions h) w = Some s" "workspaceId s = wid" "fails w"
      by simp_all
    then show "sessions_get (sessions ?h') w = None" by (rule gone)
  next
    fix w :: socket and s :: session and f rest
    assume "workspaceId s = wid \<and> fails w"
    then show "broadcast_loop fails f wid ((w, s) # rest) h
              = broadcast_loop fails f wid rest
                  (h\<lparr>sends := sends h @ [(w, f)], sessions := sessions_delete (sessions h) w\<rparr>)"
      by (rule step)
  qed
qed

theorem fan_out_evicts_and_continues_witness:
  "map_ok (sessions demo_hub)
   \<and> fst (broadcast (\<lambda>w. w = 1) 1000 demo_event ''W1'' demo_hub) = Returned ()
   \<and> map fst (new_sends demo_hub (snd (broadcast (\<lambda>w. w = 1) 1000 demo_event ''W1'' demo_hub))) = [1, 2]
   \<and> map fst (sessions (snd (broadcast (\<lambda>w. w = 1) 1000 demo_event ''W1'' demo_hub))) = [2, 3]"
proof -
  have h: "map_ok (sessions demo_hub)"
    by (simp add: map_ok_def demo_hub_def demo_sessions_def)
  show ?thesis
    using h fan_out_evicts_and_continues [OF h, of "\<lambda>w. w = 1" 1000 demo_event "''W1''"]
    by (simp add: new_sends_def broadcast_eq recipients_def evicted_def
          demo_hub_def demo_sessions_def)
qed


text \<open>
  A text that is valid JSON and yet no message: \<^verbatim>\<open>42\<close> parses, has no \<^verbatim>\<open>type\<close>, and
  falls to the \<^verbatim>\<open>default\<close> case of the \<^verbatim>\<open>switch\<close>, which only logs. The registered
  sender gets no frame at all.
\<close>

theorem json_without_type_counterexample:
  "sessions_get (sessions demo_hub) 2 = Some \<lparr>agentId = ''A2'', workspaceId = ''W1''\<rparr>
   \<and> demo_parse ''42'' = Some (JNum 42)
   \<and> webSocketMessage demo_parse (\<lambda>w. False) 1000 2 (Text ''42'') demo_hub = (Returned (), demo_hub)
   \<and> new_sends demo_hub (snd (webSocketMessage demo_parse (\<lambda>w. False) 1000 2 (Text ''42'') demo_hub))
       = []"
  by (simp add: webSocketMessage_def message_body_def new_sends_def sessions_get_def
        demo_parse_def demo_text_def demo_hub_def demo_sessions_def)

text \<open>What the handler does with any parsed value whose \<^verbatim>\<open>type\<close> it does not know.\<close>

lemma unknown_type_no_op:
  assumes "sessions_get (sessions h) ws = Some s"
      and "parse t = Some data"
      and "get_prop data ''type'' = Returned ty"
      and "ty \<noteq> Some (JStr ''ping'')" "ty \<noteq> Some (JStr ''subscribe'')"
          "ty \<noteq> Some (JStr ''broadcast'')"
  shows "webSocketMessage parse fails now ws (Text t) h = (Returned (), h)"
  using assms by (simp add: webSocketMessage_def message_body_def)

text \<open>
  C8 (amended). A text frame from a registered session \<open>ws\<close> on which \<^verbatim>\<open>JSON.parse\<close>
  throws, or which parses to \<^verbatim>\<open>null\<close> (on which reading \<^verbatim>\<open>data.type\<close> throws), makes
  the handler send exactly one frame to \<open>ws\<close> and none to any other socket. That frame
  is the error frame: its \<^verbatim>\<open>type\<close> is \<^verbatim>\<open>'error'\<close>, its \<^verbatim>\<open>payload\<close> is
  \<^verbatim>\<open>{ message: 'Failed to process message' }\<close> and its \<^verbatim>\<open>timestamp\<close> is the clock
  reading. The registry is left as it was, so \<open>ws\<close> stays registered, and no socket is
  closed (the handler's only effect on a socket is a send). That send is outside the
  \<^verbatim>\<open>try\<close>: when it throws, the exception leaves the handler.
\<close>

theorem unparseable_frame_error_reply:
  assumes "sessions_get (sessions h) ws = Some s"
      and "parse t = None \<or> parse t = Some JNull"
  shows "webSocketMessage parse fails now ws (Text t) h
           = (if fails ws then Threw SendError else Returned (),
              h\<lparr>sends := sends h @ [(ws, error_frame now)]\<rparr>)
       \<and> new_sends h (snd (webSocketMessage parse fails now ws (Text t) h)) = [(ws, error_frame now)]
       \<and> sessions (snd (webSocketMessage parse fails now ws (Text t) h)) = sessions h
       \<and> sessions_get (sessions (snd (webSocketMessage parse fails now ws (Text t) h))) ws = Some s
       \<and> get_prop (error_frame now) ''type'' = Returned (Some (JStr ''error''))
       \<and> get_prop (error_frame now) ''payload''
           = Returned (Some (JObj [(''message'', JStr ''Failed to process message'')]))
       \<and> get_prop (error_frame now) ''timestamp'' = Returned (Some (JNum now))"
proof -
  from assms(2) have "message_body parse fails now ws s (Text t) h = (Threw SyntaxError, h)
      \<or> message_body parse fails now ws s (Text t) h = (Threw TypeError, h)"
    by (auto simp: message_body_def)
  then have eq: "webSocketMessage parse fails now ws (Text t) h
           = (if fails ws then Threw SendError else Returned (),
              h\<lparr>sends := sends h @ [(ws, error_frame now)]\<rparr>)"
    using assms(1) by (auto simp: webSocketMessage_def ws_send_def)
  have fr: "get_prop (error_frame now) ''type'' = Returned (Some (JStr ''error''))"
    "get_prop (error_frame now) ''payload''
       = Returned (Some (JObj [(''message'', JStr ''Failed to process message'')]))"
    "get_prop (error_frame now) ''timestamp'' = Returned (Some (JNum now))"
    by (simp_all add: error_frame_def)
  show ?thesis
    unfolding eq using assms(1) fr by (simp add: new_sends_def)
qed

theorem unparseable_frame_error_reply_witness:
  "sessions_get (sessions demo_hub) 2 = Some \<lparr>agentId = ''A2'', workspaceId = ''W1''\<rparr>
   \<and> demo_parse ''{oops'' = None
   \<and> webSocketMessage demo_parse (\<lambda>w. False) 1000 2 (Text ''{oops'') demo_hub
       = (Returned (),
          demo_hub\<lparr>sends := [(2, JObj [(''type'', JStr ''error''),
                      (''payload'', JObj [(''message'', JStr ''Failed to process message'')]),
                      (''timestamp'', JNum 1000)])]\<rparr>)
   \<and> map fst (sessions (snd (webSocketMessage demo_parse (\<lambda>w. False) 1000 2 (Text ''{oops'') demo_hub)))
       = [1, 2, 3]"
proof -
  have a: "sessions_get (sessions demo_hub) 2 = Some \<lparr>agentId = ''A2'', workspaceId = ''W1''\<rparr>"
    by (simp add: sessions_get_def demo_hub_def demo_sessions_def)
  have b: "demo_parse ''{oops'' = None"
    by (simp add: demo_parse_def demo_text_def)
  have b': "demo_parse ''{oops'' = None \<or> demo_parse ''{oops'' = Some JNull"
    using b by simp
  note t = unparseable_frame_error_reply [where parse = demo_parse and t = "''{oops''"
        and fails = "\<lambda>w. False" and now = 1000, OF a b']
  have c: "webSocketMessage demo_parse (\<lambda>w. False) 1000 2 (Text ''{oops'') demo_hub
       = (Returned (),
          demo_hub\<lparr>sends := [(2, JObj [(''type'', JStr ''error''),
                      (''payload'', JObj [(''message'', JStr ''Failed to process message'')]),
                      (''timestamp'', JNum 1000)])]\<rparr>)"
    unfolding t [THEN conjunct1] by (simp add: error_frame_def demo_hub_def)
  have d: "map fst (sessions (snd (webSocketMessage demo_parse (\<lambda>w. False) 1000 2 (Text ''{oops'') demo_hub)))
       = [1, 2, 3]"
    unfolding t [THEN conjunct2, THEN conjunct2, THEN conjunct1]
    by (simp add: demo_hub_def demo_sessions_def)
  show ?thesis
    by (intro conjI) (rule a b c d)+
qed

text \<open>
  C9. \<^verbatim>\<open>fetch\<close> answers a request whose \<^verbatim>\<open>Upgrade\<close> header is not \<^verbatim>\<open>websocket\<close> with
  status 426, and a request whose \<^verbatim>\<open>agentId\<close> or \<^verbatim>\<open>workspaceId\<close> is missing or empty
  with a status in the 4xx range (400 when the request is an upgrade request). In both
  cases the response carries no socket and the hub is returned as it was: no session is
  created and nothing is sent. 426 is the answer to nothing but a request that is not an
  upgrade request.
\<close>

theorem fetch_rejections:
  "(upgrade req \<noteq> Some ''websocket'' \<longrightarrow>
      (\<exists>r. fetch fails now client server req h = (Returned r, h)
           \<and> status r = 426 \<and> webSocket r = None))
   \<and> (falsy (q_agentId req) \<or> falsy (q_workspaceId req) \<longrightarrow>
      (\<exists>r. fetch fails now client server req h = (Returned r, h)
           \<and> 400 \<le> status r \<and> status r < 500 \<and> webSocket r = None
           \<and> (upgrade req = Some ''websocket'' \<longrightarrow> status r = 400)))
   \<and> (\<forall>r h'. fetch fails now client server req h = (Returned r, h') \<and> status r = 426 \<longrightarrow>
         upgrade req \<noteq> Some ''websocket'')"
  by (auto simp: fetch_def Let_def ws_send_def split: if_splits)

theorem fetch_rejections_witness:
  "upgrade \<lparr>upgrade = None, q_agentId = Some ''A9'', q_workspaceId = Some ''W1''\<rparr> \<noteq> Some ''websocket''
   \<and> fetch (\<lambda>w. False) 1000 10 11
         \<lparr>upgrade = None, q_agentId = Some ''A9'', q_workspaceId = Some ''W1''\<rparr> demo_hub
       = (Returned \<lparr>status = 426, headers = [], resp_body = TextBody ''Expected WebSocket'',
                    webSocket = None\<rparr>, demo_hub)
   \<and> falsy (q_workspaceId \<lparr>upgrade = Some ''websocket'', q_agentId = Some ''A9'', q_workspaceId = Some ''''\<rparr>)
   \<and> fetch (\<lambda>w. False) 1000 10 11
         \<lparr>upgrade = Some ''websocket'', q_agentId = Some ''A9'', q_workspaceId = Some ''''\<rparr> demo_hub
       = (Returned \<lparr>status = 400, headers = [],
                    resp_body = TextBody ''Missing agentId or workspaceId'', webSocket = None\<rparr>, demo_hub)
   \<and> map fst (sessions (snd (fetch (\<lambda>w. False) 1000 10 11
         \<lparr>upgrade = Some ''websocket'', q_agentId = Some ''A9'', q_workspaceId = Some ''W1''\<rparr> demo_hub)))
       = [1, 2, 3, 11]"
  using fetch_rejections [of "\<lparr>upgrade = None, q_agentId = Some ''A9'', q_workspaceId = Some ''W1''\<rparr>"
          "\<lambda>w. False" 1000 10 11 demo_hub]
        fetch_rejections [of "\<lparr>upgrade = Some ''websocket'', q_agentId = Some ''A9'', q_workspaceId = Some ''''\<rparr>"
          "\<lambda>w. False" 1000 10 11 demo_hub]
  by (simp add: fetch_def Let_def ws_send_def demo_hub_def demo_sessions_def)

text \<open>
  C10. The inbound handler does nothing on a frame that is not a string, and nothing on
  a frame from a socket that has no session: it returns normally and the hub (registry
  and sends) is the one it was given.
\<close>

theorem ignored_frames_no_op:
  "webSocketMessage parse fails now ws (Binary b) h = (Returned (), h)
   \<and> (sessions_get (sessions h) ws = None \<longrightarrow>
        webSocketMessage parse fails now ws m h = (Returned (), h))"
  by (simp add: webSocketMessage_def message_body_def split: option.splits)

theorem ignored_frames_no_op_witness:
  "sessions_get (sessions demo_hub) 7 = None
   \<and> webSocketMessage demo_parse (\<lambda>w. False) 1000 7 (Text demo_text) demo_hub = (Returned (), demo_hub)
   \<and> webSocketMessage demo_parse (\<lambda>w. False) 1000 1 (Binary [123, 125]) demo_hub = (Returned (), demo_hub)"
  using ignored_frames_no_op [of demo_parse "\<lambda>w. False" 1000 7 "[123, 125]" demo_hub "Text demo_text"]
        ignored_frames_no_op [of demo_parse "\<lambda>w. False" 1000 1 "[123, 125]" demo_hub "Text demo_text"]
  by (simp add: sessions_get_def demo_hub_def demo_sessions_def)



section \<open>The rate limiter, branch by branch\<close>

lemma ceil_seconds_bounds: "1000 * (ceil_seconds d - 1) < d \<and> d \<le> 1000 * ceil_seconds d"
proof -
  define q where "q = (- d) div 1000"
  define r where "r = (- d) mod 1000"
  have "- d = 1000 * q + r" by (simp add: q_def r_def)
  moreover have "0 \<le> r" and "r < 1000" by (simp_all add: r_def)
  moreover have "ceil_seconds d = - q" by (simp add: ceil_seconds_def q_def)
  ultimately show ?thesis by simp
qed

lemma ceil_seconds_exact:
  assumes "1000 dvd d"
  shows "1000 * ceil_seconds d = d"
proof -
  from assms obtain k where k: "d = 1000 * k" by (rule dvdE)
  have "- d = 1000 * (- k)" by (simp add: k)
  then have "(- d) div 1000 = - k" by simp
  then show ?thesis by (simp add: ceil_seconds_def k)
qed

text \<open>The windows of the predefined policies are whole numbers of seconds.\<close>

lemma predefined_windows_whole_seconds:
  "1000 * ceil_seconds (windowMs RateLimits_auth) = windowMs RateLimits_auth"
  "1000 * ceil_seconds (windowMs RateLimits_api) = windowMs RateLimits_api"
  "1000 * ceil_seconds (windowMs RateLimits_read) = windowMs RateLimits_read"
  "1000 * ceil_seconds (windowMs RateLimits_write) = windowMs RateLimits_write"
  by (simp_all add: ceil_seconds_exact RateLimits_auth_def RateLimits_api_def
        RateLimits_read_def RateLimits_write_def)

lemma mw_fresh:
  assumes "ENABLE_RATE_LIMITING c" "\<not> get_down st" "\<not> put_down st"
      and "cells st (rl_key config c) = None"
      and "60 \<le> ceil_seconds (windowMs config)"
  shows "rateLimitMiddleware config c now st =
     (Returned (Next (rate_headers (maxRequests config) (maxRequests config - 1)
                        (now + windowMs config))),
      st\<lparr>cells := (cells st)(rl_key config c \<mapsto>
            \<lparr>cell_data = \<lparr>count = 1, resetAt = now + windowMs config\<rparr>,
             expirationTtl = ceil_seconds (windowMs config)\<rparr>)\<rparr>)"
  using assms by (simp add: rateLimitMiddleware_def kv_get_def kv_put_def)

lemma mw_reset:
  assumes "ENABLE_RATE_LIMITING c" "\<not> get_down st" "\<not> put_down st"
      and "cells st (rl_key config c) = Some cell"
      and "resetAt (cell_data cell) < now"
      and "60 \<le> ceil_seconds (windowMs config)"
  shows "rateLimitMiddleware config c now st =
     (Returned (Next []),
      st\<lparr>cells := (cells st)(rl_key config c \<mapsto>
            \<lparr>cell_data = \<lparr>count = 1, resetAt = now + windowMs config\<rparr>,
             expirationTtl = ceil_seconds (windowMs config)\<rparr>)\<rparr>)"
  using assms by (simp add: rateLimitMiddleware_def kv_get_def kv_put_def)

lemma mw_increment:
  assumes "ENABLE_RATE_LIMITING c" "\<not> get_down st" "\<not> put_down st"
      and "cells st (rl_key config c) = Some cell"
      and "now \<le> resetAt (cell_data cell)"
      and "count (cell_data cell) < maxRequests config"
      and "60 \<le> ceil_seconds (resetAt (cell_data cell) - now)"
  shows "rateLimitMiddleware config c now st =
     (Returned (Next (rate_headers (maxRequests config)
                        (maxRequests config - count (cell_data cell) - 1)
                        (resetAt (cell_data cell)))),
      st\<lparr>cells := (cells st)(rl_key config c \<mapsto>
            \<lparr>cell_data = \<lparr>count = count (cell_data cell) + 1, resetAt = resetAt (cell_data cell)\<rparr>,
             expirationTtl = ceil_seconds (resetAt (cell_data cell) - now)\<rparr>)\<rparr>)"
  using assms by (simp add: rateLimitMiddleware_def kv_get_def kv_put_def)

lemma mw_increment_refused:
  assumes "ENABLE_RATE_LIMITING c" "\<not> get_down st"
      and "cells st (rl_key config c) = Some cell"
      and "now \<le> resetAt (cell_data cell)"
      and "count (cell_data cell) < maxRequests config"
      and "ceil_seconds (resetAt (cell_data cell) - now) < 60"
  shows "\<not> admitted (fst (rateLimitMiddleware config c now st))
       \<and> snd (rateLimitMiddleware config c now st) = st"
  using assms by (simp add: rateLimitMiddleware_def kv_get_def kv_put_def)

text \<open>Every predefined policy has a window the store accepts as an expiry.\<close>

lemma predefined_windows_accepted:
  "60 \<le> ceil_seconds (windowMs RateLimits_auth)"
  "60 \<le> ceil_seconds (windowMs RateLimits_api)"
  "60 \<le> ceil_seconds (windowMs RateLimits_read)"
  "60 \<le> ceil_seconds (windowMs RateLimits_write)"
  by (simp_all add: ceil_seconds_def RateLimits_auth_def RateLimits_api_def
        RateLimits_read_def RateLimits_write_def)

lemma mw_reject:
  assumes "ENABLE_RATE_LIMITING c" "\<not> get_down st"
      and "cells st (rl_key config c) = Some cell"
      and "now \<le> resetAt (cell_data cell)"
      and "maxRequests config \<le> count (cell_data cell)"
  shows "rateLimitMiddleware config c now st =
     (Returned (Respond (too_many (ceil_seconds (resetAt (cell_data cell) - now))
                           (maxRequests config) (resetAt (cell_data cell)))), st)"
  using assms by (simp add: rateLimitMiddleware_def kv_get_def)


section \<open>Properties of the rate limiter\<close>

text \<open>
  C5. With rate limiting on and the store readable: when the key's record is current
  (\<open>now < resetAt\<close>) and its count has reached the limit, the check answers with
  status 429 and does not call \<^verbatim>\<open>next()\<close>; \<^verbatim>\<open>Retry-After\<close> is \<open>resetAt - now\<close> in
  seconds rounded up (the least whole number of seconds that covers the milliseconds
  left); \<^verbatim>\<open>X-RateLimit-Remaining\<close> is 0; and the store is the one the check was given.
  Hence two such checks one after the other, at any two instants before \<open>resetAt\<close>, are
  both rejected, each with the \<^verbatim>\<open>Retry-After\<close> of its own instant, and leave the stored
  count and \<open>resetAt\<close> as they were.
\<close>

theorem exhausted_window_rejects:
  assumes "ENABLE_RATE_LIMITING c" and "\<not> get_down st"
      and "cells st (rl_key config c) = Some cell"
      and "now < resetAt (cell_data cell)" and "now' < resetAt (cell_data cell)"
      and "maxRequests config \<le> count (cell_data cell)"
  shows "rateLimitMiddleware config c now st =
           (Returned (Respond (too_many (ceil_seconds (resetAt (cell_data cell) - now))
                                 (maxRequests config) (resetAt (cell_data cell)))), st)
       \<and> status (too_many (ceil_seconds (resetAt (cell_data cell) - now))
                    (maxRequests config) (resetAt (cell_data cell))) = 429
       \<and> map_of (headers (too_many (ceil_seconds (resetAt (cell_data cell) - now))
                    (maxRequests config) (resetAt (cell_data cell)))) ''Retry-After''
           = Some (HNum (ceil_seconds (resetAt (cell_data cell) - now)))
       \<and> 1000 * (ceil_seconds (resetAt (cell_data cell) - now) - 1) < resetAt (cell_data cell) - now
       \<and> resetAt (cell_data cell) - now \<le> 1000 * ceil_seconds (resetAt (cell_data cell) - now)
       \<and> remaining (fst (rateLimitMiddleware config c now st)) = Some (HNum 0)
       \<and> checks config c [now, now'] st =
           ([Returned (Respond (too_many (ceil_seconds (resetAt (cell_data cell) - now))
                                  (maxRequests config) (resetAt (cell_data cell)))),
             Returned (Respond (too_many (ceil_seconds (resetAt (cell_data cell) - now'))
                                  (maxRequests config) (resetAt (cell_data cell))))], st)"
proof -
  have le: "now \<le> resetAt (cell_data cell)" "now' \<le> resetAt (cell_data cell)"
    using assms(4,5) by simp_all
  note r1 = mw_reject [OF assms(1,2,3) le(1) assms(6)]
  note r2 = mw_reject [OF assms(1,2,3) le(2) assms(6)]
  show ?thesis
    using ceil_seconds_bounds [of "resetAt (cell_data cell) - now"]
    by (simp add: r1 r2) (simp add: too_many_def)
qed

theorem exhausted_window_rejects_witness:
  "ENABLE_RATE_LIMITING demo_ctx \<and> \<not> get_down (store_with 3 60000)
   \<and> cells (store_with 3 60000) (rl_key demo_config demo_ctx)
       = Some \<lparr>cell_data = \<lparr>count = 3, resetAt = 60000\<rparr>, expirationTtl = 60\<rparr>
   \<and> checks demo_config demo_ctx [3000, 4500] (store_with 3 60000)
       = ([Returned (Respond (too_many 57 3 60000)), Returned (Respond (too_many 56 3 60000))],
          store_with 3 60000)"
proof -
  have a: "ENABLE_RATE_LIMITING demo_ctx" by (simp add: demo_ctx_def)
  have b: "\<not> get_down (store_with 3 60000)" by (simp add: store_with_def)
  have k: "rl_key demo_config demo_ctx = ''rl:api:203.0.113.9''"
    by (simp add: rl_key_def rl_identifier_def demo_config_def demo_ctx_def)
  have c: "cells (store_with 3 60000) (rl_key demo_config demo_ctx)
       = Some \<lparr>cell_data = \<lparr>count = 3, resetAt = 60000\<rparr>, expirationTtl = 60\<rparr>"
    unfolding k by (simp add: store_with_def)
  have d: "(3000::int) < resetAt (cell_data \<lparr>cell_data = \<lparr>count = 3, resetAt = 60000\<rparr>, expirationTtl = 60\<rparr>)"
          "(4500::int) < resetAt (cell_data \<lparr>cell_data = \<lparr>count = 3, resetAt = 60000\<rparr>, expirationTtl = 60\<rparr>)"
          "maxRequests demo_config \<le> count (cell_data \<lparr>cell_data = \<lparr>count = 3, resetAt = 60000\<rparr>, expirationTtl = 60\<rparr>)"
    by (simp_all add: demo_config_def)
  show ?thesis
    using a b c exhausted_window_rejects [OF a b c d]
    by (simp del: checks.simps add: ceil_seconds_def demo_config_def)
qed


text \<open>
  C6. The claim has every check on a current record below its limit store the count
  plus one and admit the request. The code passes the seconds left in the window as
  the record's \<^verbatim>\<open>expirationTtl\<close>, and the store refuses an expiry under 60 seconds,
  so the write throws whenever less than a minute of the window is left. Two runs, each
  with rate limiting on, the store working and no record for the caller. Under
  \<^verbatim>\<open>RateLimits.auth\<close> (10 requests in 15 minutes, the policy of the login and register
  routes): the request at 0 ms is admitted, reports 9 remaining and stores \<open>count = 1\<close>,
  \<open>resetAt = 900000\<close> with expiry 900; the request at 850000 ms finds that record
  current and below the limit, asks for expiry 50, and the write throws: the handler
  throws, \<^verbatim>\<open>next()\<close> is not called and the stored count is still 1. Under
  \<^verbatim>\<open>RateLimits.api\<close> (100 requests in 60 seconds) the same happens to the request at
  1000 ms, which asks for expiry 59.
\<close>

theorem increment_refused_by_store:
  "ENABLE_RATE_LIMITING demo_ctx \<and> \<not> get_down empty_store \<and> \<not> put_down empty_store
   \<and> cells empty_store (rl_key RateLimits_auth demo_ctx) = None
   \<and> fst (checks RateLimits_auth demo_ctx [0, 850000] empty_store)
       = [Returned (Next (rate_headers 10 9 900000)), Threw TtlError]
   \<and> map admitted (fst (checks RateLimits_auth demo_ctx [0, 850000] empty_store)) = [True, False]
   \<and> cells (snd (checks RateLimits_auth demo_ctx [0, 850000] empty_store))
         (rl_key RateLimits_auth demo_ctx)
       = Some \<lparr>cell_data = \<lparr>count = 1, resetAt = 900000\<rparr>, expirationTtl = 900\<rparr>
   \<and> ceil_seconds (900000 - 850000) = 50
   \<and> cells empty_store (rl_key RateLimits_api demo_ctx) = None
   \<and> fst (checks RateLimits_api demo_ctx [0, 1000] empty_store)
       = [Returned (Next (rate_headers 100 99 60000)), Threw TtlError]
   \<and> map admitted (fst (checks RateLimits_api demo_ctx [0, 1000] empty_store)) = [True, False]
   \<and> cells (snd (checks RateLimits_api demo_ctx [0, 1000] empty_store))
         (rl_key RateLimits_api demo_ctx)
       = Some \<lparr>cell_data = \<lparr>count = 1, resetAt = 60000\<rparr>, expirationTtl = 60\<rparr>
   \<and> ceil_seconds (60000 - 1000) = 59"
proof -
  have k: "rl_key RateLimits_api demo_ctx = ''rl:api:203.0.113.9''"
    "rl_key RateLimits_auth demo_ctx = ''rl:auth:203.0.113.9''"
    by (simp_all add: rl_key_def rl_identifier_def RateLimits_api_def RateLimits_auth_def
          demo_ctx_def)
  show ?thesis
    unfolding k rateLimitMiddleware_def checks.simps
    by (simp add: kv_get_def kv_put_def ceil_seconds_def rate_headers_def
          RateLimits_api_def RateLimits_auth_def demo_ctx_def empty_store_def)
qed


text \<open>
  At \<open>now = resetAt\<close> the guard \<^verbatim>\<open>now > currentData.resetAt\<close> is false: the record
  counts as current. With the count at the limit the check rejects with status 429 and
  \<^verbatim>\<open>Retry-After\<close> 0 and leaves the record alone, where the same check on a key without
  a record is admitted and reports 2 remaining.
\<close>

theorem boundary_not_reset_counterexample:
  "cells (store_with 3 60000) (rl_key demo_config demo_ctx)
       = Some \<lparr>cell_data = \<lparr>count = 3, resetAt = 60000\<rparr>, expirationTtl = 60\<rparr>
   \<and> resetAt \<lparr>count = 3, resetAt = 60000\<rparr> \<le> 60000
   \<and> rateLimitMiddleware demo_config demo_ctx 60000 (store_with 3 60000)
       = (Returned (Respond (too_many 0 3 60000)), store_with 3 60000)
   \<and> \<not> admitted (fst (rateLimitMiddleware demo_config demo_ctx 60000 (store_with 3 60000)))
   \<and> admitted (fst (rateLimitMiddleware demo_config demo_ctx 60000 empty_store))
   \<and> remaining (fst (rateLimitMiddleware demo_config demo_ctx 60000 empty_store)) = Some (HNum 2)"
proof -
  have k: "rl_key demo_config demo_ctx = ''rl:api:203.0.113.9''"
    by (simp add: rl_key_def rl_identifier_def demo_config_def demo_ctx_def)
  show ?thesis
    unfolding k rateLimitMiddleware_def
    by (simp add: kv_get_def kv_put_def ceil_seconds_def rate_headers_def
          demo_config_def demo_ctx_def empty_store_def store_with_def)
qed

text \<open>
  C4 (amended). With rate limiting on, the store working and a window that the store
  accepts as an expiry (60 seconds or more, which every predefined policy has): when
  the key's record has \<open>resetAt < now\<close>, whatever its count, the check leaves the store
  exactly as the same check would leave the same store without that record
  (\<open>count = 1\<close>, \<open>resetAt = now + windowMs\<close>, the same expiry), and the request is
  admitted as it is there.
\<close>

theorem expired_window_resets:
  assumes "ENABLE_RATE_LIMITING c" and "\<not> get_down st" and "\<not> put_down st"
      and "cells st (rl_key config c) = Some cell"
      and "resetAt (cell_data cell) < now"
      and "60 \<le> ceil_seconds (windowMs config)"
  shows "snd (rateLimitMiddleware config c now st)
           = snd (rateLimitMiddleware config c now (st\<lparr>cells := (cells st)(rl_key config c := None)\<rparr>))
       \<and> cells (snd (rateLimitMiddleware config c now st)) (rl_key config c)
           = Some \<lparr>cell_data = \<lparr>count = 1, resetAt = now + windowMs config\<rparr>,
                   expirationTtl = ceil_seconds (windowMs config)\<rparr>
       \<and> admitted (fst (rateLimitMiddleware config c now st))
       \<and> admitted (fst (rateLimitMiddleware config c now
                          (st\<lparr>cells := (cells st)(rl_key config c := None)\<rparr>)))"
proof -
  let ?st0 = "st\<lparr>cells := (cells st)(rl_key config c := None)\<rparr>"
  have f: "rateLimitMiddleware config c now ?st0 =
     (Returned (Next (rate_headers (maxRequests config) (maxRequests config - 1)
                        (now + windowMs config))),
      ?st0\<lparr>cells := (cells ?st0)(rl_key config c \<mapsto>
            \<lparr>cell_data = \<lparr>count = 1, resetAt = now + windowMs config\<rparr>,
             expirationTtl = ceil_seconds (windowMs config)\<rparr>)\<rparr>)"
    by (rule mw_fresh) (use assms in simp_all)
  show ?thesis
    by (simp add: mw_reset [OF assms] f)
qed

theorem expired_window_resets_witness:
  "ENABLE_RATE_LIMITING demo_ctx \<and> \<not> get_down (store_with 3 60000) \<and> \<not> put_down (store_with 3 60000)
   \<and> cells (store_with 3 60000) (rl_key demo_config demo_ctx)
       = Some \<lparr>cell_data = \<lparr>count = 3, resetAt = 60000\<rparr>, expirationTtl = 60\<rparr>
   \<and> resetAt (cell_data \<lparr>cell_data = \<lparr>count = 3, resetAt = 60000\<rparr>, expirationTtl = 60\<rparr>) < 61000
   \<and> cells (snd (rateLimitMiddleware demo_config demo_ctx 61000 (store_with 3 60000)))
        (rl_key demo_config demo_ctx)
       = Some \<lparr>cell_data = \<lparr>count = 1, resetAt = 121000\<rparr>, expirationTtl = 60\<rparr>
   \<and> admitted (fst (rateLimitMiddleware demo_config demo_ctx 61000 (store_with 3 60000)))
   \<and> 60 \<le> ceil_seconds (windowMs demo_config)"
proof -
  have a: "ENABLE_RATE_LIMITING demo_ctx" by (simp add: demo_ctx_def)
  have b: "\<not> get_down (store_with 3 60000)" "\<not> put_down (store_with 3 60000)"
    by (simp_all add: store_with_def)
  have k: "rl_key demo_config demo_ctx = ''rl:api:203.0.113.9''"
    by (simp add: rl_key_def rl_identifier_def demo_config_def demo_ctx_def)
  have c: "cells (store_with 3 60000) (rl_key demo_config demo_ctx)
       = Some \<lparr>cell_data = \<lparr>count = 3, resetAt = 60000\<rparr>, expirationTtl = 60\<rparr>"
    unfolding k by (simp add: store_with_def)
  have d: "resetAt (cell_data \<lparr>cell_data = \<lparr>count = 3, resetAt = 60000\<rparr>, expirationTtl = 60\<rparr>) < 61000"
    by simp
  have e: "ceil_seconds (windowMs demo_config) = 60" "61000 + windowMs demo_config = 121000"
    by (simp_all add: ceil_seconds_def demo_config_def)
  have w: "60 \<le> ceil_seconds (windowMs demo_config)" by (simp add: e)
  note t = expired_window_resets [OF a b c d w]
  have f: "cells (snd (rateLimitMiddleware demo_config demo_ctx 61000 (store_with 3 60000)))
        (rl_key demo_config demo_ctx)
       = Some \<lparr>cell_data = \<lparr>count = 1, resetAt = 121000\<rparr>, expirationTtl = 60\<rparr>"
    using t [THEN conjunct2, THEN conjunct1] by (simp only: e)
  have g: "admitted (fst (rateLimitMiddleware demo_config demo_ctx 61000 (store_with 3 60000)))"
    by (rule t [THEN conjunct2, THEN conjunct2, THEN conjunct1])
  show ?thesis
    by (intro conjI) (rule a b c d f g w)+
qed

text \<open>
  With rate limiting on, a store whose read throws, and a store whose write throws, each
  make the handler throw: \<^verbatim>\<open>next()\<close> is not called.
\<close>

theorem store_failure_not_admitted_counterexample:
  "get_down (empty_store\<lparr>get_down := True\<rparr>)
   \<and> rateLimitMiddleware demo_config demo_ctx 1000 (empty_store\<lparr>get_down := True\<rparr>)
       = (Threw StoreError, empty_store\<lparr>get_down := True\<rparr>)
   \<and> \<not> admitted (fst (rateLimitMiddleware demo_config demo_ctx 1000 (empty_store\<lparr>get_down := True\<rparr>)))
   \<and> put_down (empty_store\<lparr>put_down := True\<rparr>)
   \<and> rateLimitMiddleware demo_config demo_ctx 1000 (empty_store\<lparr>put_down := True\<rparr>)
       = (Threw StoreError, empty_store\<lparr>put_down := True\<rparr>)
   \<and> \<not> admitted (fst (rateLimitMiddleware demo_config demo_ctx 1000 (empty_store\<lparr>put_down := True\<rparr>)))"
  by (simp add: rateLimitMiddleware_def kv_get_def kv_put_def demo_ctx_def empty_store_def)

text \<open>
  C3 (amended). With rate limiting on, a failure of the store is not absorbed: when
  the read fails the handler throws what the store threw; when the read works and the
  write fails, the handler throws on every branch that writes (every branch but the
  rejection of a current record at its limit, which writes nothing). In either case
  the request is not admitted (\<^verbatim>\<open>next()\<close> is not called) and the store is left as it
  was.
\<close>

theorem store_failure_propagates:
  assumes "ENABLE_RATE_LIMITING c"
  shows "(get_down st \<longrightarrow> rateLimitMiddleware config c now st = (Threw StoreError, st))
       \<and> (\<not> get_down st \<and> put_down st
            \<and> (\<forall>cell. cells st (rl_key config c) = Some cell \<longrightarrow>
                   resetAt (cell_data cell) < now \<or> count (cell_data cell) < maxRequests config) \<longrightarrow>
            rateLimitMiddleware config c now st = (Threw StoreError, st))
       \<and> (get_down st \<or> put_down st \<longrightarrow>
            \<not> admitted (fst (rateLimitMiddleware config c now st))
            \<and> snd (rateLimitMiddleware config c now st) = st)"
  using assms
  by (auto simp: rateLimitMiddleware_def kv_get_def kv_put_def Let_def split: option.splits)

theorem store_failure_propagates_witness:
  "ENABLE_RATE_LIMITING demo_ctx
   \<and> get_down (empty_store\<lparr>get_down := True\<rparr>)
   \<and> fst (rateLimitMiddleware demo_config demo_ctx 1000 (empty_store\<lparr>get_down := True\<rparr>))
       = Threw StoreError
   \<and> put_down (store_with 2 60000\<lparr>put_down := True\<rparr>)
   \<and> fst (rateLimitMiddleware demo_config demo_ctx 1000 (store_with 2 60000\<lparr>put_down := True\<rparr>))
       = Threw StoreError"
proof -
  have a: "ENABLE_RATE_LIMITING demo_ctx" by (simp add: demo_ctx_def)
  have k: "rl_key demo_config demo_ctx = ''rl:api:203.0.113.9''"
    by (simp add: rl_key_def rl_identifier_def demo_config_def demo_ctx_def)
  have g: "get_down (empty_store\<lparr>get_down := True\<rparr>)" by simp
  have p: "put_down (store_with 2 60000\<lparr>put_down := True\<rparr>)" by simp
  have e1: "fst (rateLimitMiddleware demo_config demo_ctx 1000 (empty_store\<lparr>get_down := True\<rparr>))
       = Threw StoreError"
    using store_failure_propagates [OF a, of "empty_store\<lparr>get_down := True\<rparr>" demo_config 1000]
    by simp
  have e2: "fst (rateLimitMiddleware demo_config demo_ctx 1000 (store_with 2 60000\<lparr>put_down := True\<rparr>))
       = Threw StoreError"
    using store_failure_propagates [OF a, of "store_with 2 60000\<lparr>put_down := True\<rparr>" demo_config 1000]
    unfolding k by (simp add: store_with_def demo_config_def)
  show ?thesis
    by (intro conjI) (rule a g p e1 e2)+
qed


end
